theory Spec2Isabelle
  imports Main "HOL-Library.Word" "HOL-Library.AList"
begin

section \<open>Field names and the sensitive-field filter (sensitive.go)\<close>

text \<open>
  Go strings are byte strings that hold UTF-8 text; a \<^typ>\<open>string\<close> is the list of their
  bytes. On a string of ASCII bytes \<open>strings.ToLower\<close> works byte by byte: the letters
  \<open>A\<close> to \<open>Z\<close> (bytes 65 to 90) are moved to \<open>a\<close> to \<open>z\<close> and every other byte is kept.
  On a string with a byte from 128 on it decodes the runes and sends each through the
  case tables of package \<open>unicode\<close>, which belong to Go's library and are not part of
  this development. \<open>ToLower\<close> below keeps every byte from 128 on: it is Go's function
  on the strings of ASCII bytes, and on the well-formed UTF-8 strings whose runes
  outside ASCII are mapped to themselves by \<open>unicode.ToLower\<close> (such as the long s, see
  below); on other strings Go's result differs. The masking functions and the encoder
  depend on two properties only, which Go's function has as well: lower-casing twice
  is lower-casing once, and only the empty string is lower-cased to the empty string.
\<close>

definition lower_byte :: "char \<Rightarrow> char" where
  "lower_byte c =
     (let n = (of_char c :: nat) in if 65 \<le> n \<and> n \<le> 90 then char_of (n + 32) else c)"

definition ToLower :: "string \<Rightarrow> string" where
  "ToLower s = map lower_byte s"

text \<open>
  \<open>type SensitiveDataFilter struct { sensitiveFields map[string]bool }\<close>.
  Reading a key that the Go map does not hold yields \<open>false\<close>.
\<close>

record SensitiveDataFilter =
  sensitiveFields :: "string \<rightharpoonup> bool"

text \<open>The variable \<open>Mask\<close> of the package, with its initial value.\<close>

definition Mask_default :: string where
  "Mask_default = ''***''"

text \<open>
  \<open>NewSensitiveDataFilter\<close>: the loop stores \<open>true\<close> under the lower-cased form of
  every configured name.
\<close>

definition NewSensitiveDataFilter :: "string list \<Rightarrow> SensitiveDataFilter" where
  "NewSensitiveDataFilter names =
     \<lparr>sensitiveFields =
        fold (\<lambda>field sensitiveMap. sensitiveMap(ToLower field \<mapsto> True)) names Map.empty\<rparr>"

text \<open>\<open>IsSensitiveField\<close>: the empty name is never sensitive; any other name is looked up lower-cased.\<close>

definition IsSensitiveField :: "SensitiveDataFilter \<Rightarrow> string \<Rightarrow> bool" where
  "IsSensitiveField f fieldName =
     (if fieldName = [] then False
      else (case sensitiveFields f (ToLower fieldName) of None \<Rightarrow> False | Some b \<Rightarrow> b))"

section \<open>Dynamic values\<close>

text \<open>
  A value of type \<open>interface{}\<close>. The two type switches of the masking functions
  tell three kinds apart: \<open>map[string]interface{}\<close>, \<open>[]interface{}\<close> and everything
  else. A Go map is given by its entries (their order carries no meaning in Go; the
  loop over a map writes one result entry per entry, under the same key). \<open>None\<close> is
  the nil map and the nil slice, which Go keeps apart from the empty ones.
  \<open>VNil\<close> is the nil interface value, \<open>VNumber m e\<close> a number \<open>m * 10 ^ e\<close>, and
  \<open>VOther\<close> a value of any further dynamic type (a struct, a pointer, a typed map or
  slice, ...), about which the program knows nothing but what the JSON library
  makes of it.
\<close>

datatype 'o gvalue =
    VNil
  | VBool bool
  | VNumber int int
  | VString string
  | VMap "(string \<times> 'o gvalue) list option"
  | VSlice "'o gvalue list option"
  | VOther 'o

lemma size_entry [termination_simp]:
  "(k, v) \<in> set data \<Longrightarrow> size v < Suc (size_list (size_prod (\<lambda>_. 0) size) data)"
  by (induction data) auto

text \<open>
  \<open>MaskSensitiveData\<close> and \<open>maskSliceData\<close>, with the package variable \<open>Mask\<close> passed
  as an argument. Each loop builds one result entry per input entry.
\<close>

function MaskSensitiveData ::
    "SensitiveDataFilter \<Rightarrow> string \<Rightarrow> (string \<times> 'o gvalue) list option
      \<Rightarrow> (string \<times> 'o gvalue) list option"
  and maskSliceData ::
    "SensitiveDataFilter \<Rightarrow> string \<Rightarrow> 'o gvalue list option \<Rightarrow> 'o gvalue list option"
where
  "MaskSensitiveData f Mask None = None"
| "MaskSensitiveData f Mask (Some data) =
     Some (map (\<lambda>(key, value).
        if IsSensitiveField f (ToLower key) then (key, VString Mask)
        else (case value of
                VMap v \<Rightarrow> (key, VMap (MaskSensitiveData f Mask v))
              | VSlice v \<Rightarrow> (key, VSlice (maskSliceData f Mask v))
              | _ \<Rightarrow> (key, value))) data)"
| "maskSliceData f Mask None = None"
| "maskSliceData f Mask (Some items) =
     Some (map (\<lambda>item.
        case item of
          VMap v \<Rightarrow> VMap (MaskSensitiveData f Mask v)
        | VSlice v \<Rightarrow> VSlice (maskSliceData f Mask v)
        | _ \<Rightarrow> item) items)"
  by pat_completeness auto
termination
  apply (relation "measure (\<lambda>x. case x of
            Inl (f, m, d) \<Rightarrow> size_option (size_list (size_prod (\<lambda>_. 0) size)) d
          | Inr (f, m, s) \<Rightarrow> size_option (size_list size) s)")
    apply simp
   apply (auto simp: size_list_estimation' less_Suc_eq_le dest!: size_entry)
  done

section \<open>The deferred wrapper and its serialization\<close>

text \<open>
  \<open>encoding/json\<close> is not part of the repository. \<open>MarshalJSON\<close> calls it at three
  places, so the library is a parameter: \<open>Marshal\<close> is \<open>json.Marshal\<close>,
  \<open>Unmarshal_map\<close> is \<open>json.Unmarshal\<close> into a nil \<open>map[string]interface{}\<close> variable and
  \<open>Unmarshal_slice\<close> is \<open>json.Unmarshal\<close> into a nil \<open>[]interface{}\<close> variable; each
  returns an error (\<open>Inl\<close>) or its result. \<open>'b\<close> is the type of serialized data.
  \<open>Wrapped msg err\<close> is \<open>fmt.Errorf(msg + ": %w", err)\<close>.
\<close>

datatype json_error = JsonError string | Wrapped string json_error

record ('o, 'b) json_lib =
  Marshal :: "'o gvalue \<Rightarrow> json_error + 'b"
  Unmarshal_map :: "'b \<Rightarrow> json_error + (string \<times> 'o gvalue) list option"
  Unmarshal_slice :: "'b \<Rightarrow> json_error + 'o gvalue list option"

text \<open>
  \<open>type SensitiveDataMarshaler struct { Data interface{}; Filter *SensitiveDataFilter }\<close>;
  the filter pointer may be nil.
\<close>

record 'o SensitiveDataMarshaler =
  Data :: "'o gvalue"
  Filter :: "SensitiveDataFilter option"

definition MarshalJSON ::
    "('o, 'b) json_lib \<Rightarrow> string \<Rightarrow> 'o SensitiveDataMarshaler \<Rightarrow> json_error + 'b" where
  "MarshalJSON J Mask m =
     (case Filter m of
        None \<Rightarrow> Marshal J (Data m)
      | Some flt \<Rightarrow>
          (case Data m of
             VMap v \<Rightarrow> Marshal J (VMap (MaskSensitiveData flt Mask v))
           | VSlice v \<Rightarrow> Marshal J (VSlice (maskSliceData flt Mask v))
           | _ \<Rightarrow>
              (case Marshal J (Data m) of
                 Inl err \<Rightarrow> Inl (Wrapped ''failed to marshal data'' err)
               | Inr jsonData \<Rightarrow>
                  (case Unmarshal_map J jsonData of
                     Inr dataMap \<Rightarrow>
                       (case Marshal J (VMap (MaskSensitiveData flt Mask dataMap)) of
                          Inl marshalErr \<Rightarrow>
                            Inl (Wrapped ''failed to marshal masked data'' marshalErr)
                        | Inr result \<Rightarrow> Inr result)
                   | Inl _ \<Rightarrow>
                       (case Unmarshal_slice J jsonData of
                          Inr dataArray \<Rightarrow>
                            (case Marshal J (VSlice (maskSliceData flt Mask dataArray)) of
                               Inl marshalErr \<Rightarrow>
                                 Inl (Wrapped ''failed to marshal masked array'' marshalErr)
                             | Inr result \<Rightarrow> Inr result)
                        | Inl _ \<Rightarrow> Inr jsonData)))))"

section \<open>The redacting encoder\<close>

text \<open>
  \<open>zapcore.Field\<close> and \<open>zapcore.FieldType\<close> belong to the zap library. A field that
  the caller hands in carries a dynamic value in \<open>Interface\<close>; a field that the
  encoder hands on carries either such a value or a pointer to a fresh
  \<open>SensitiveDataMarshaler\<close>, hence the type parameter of the payload.
\<close>

datatype FieldType =
    UnknownType | ArrayMarshalerType | ObjectMarshalerType | BinaryType | BoolType
  | ByteStringType | Complex128Type | Complex64Type | DurationType | Float64Type
  | Float32Type | Int64Type | Int32Type | Int16Type | Int8Type | StringType | TimeType
  | TimeFullType | Uint64Type | Uint32Type | Uint16Type | Uint8Type | UintptrType
  | ReflectType | NamespaceType | StringerType | ErrorType | SkipType
  | InlineMarshalerType

record 'i Field =
  Key :: string
  Type :: FieldType
  Integer :: "64 word"
  String :: string
  Interface :: 'i

datatype 'o payload =
    Value "'o gvalue"
  | Marshaler "'o SensitiveDataMarshaler"

text \<open>
  \<open>zap.String(key, val)\<close> is \<open>Field{Key: key, Type: StringType, String: val}\<close>.
  \<open>zap.Any(key, marshaler)\<close> with a \<open>*SensitiveDataMarshaler\<close>, which has none of the
  types that \<open>zap.Any\<close> knows, is \<open>zap.Reflect(key, marshaler)\<close>, that is
  \<open>Field{Key: key, Type: ReflectType, Interface: marshaler}\<close>.
\<close>

definition zap_String :: "string \<Rightarrow> string \<Rightarrow> 'o payload Field" where
  "zap_String key val =
     \<lparr>Key = key, Type = StringType, Integer = 0, String = val, Interface = Value VNil\<rparr>"

definition zap_Any :: "string \<Rightarrow> 'o SensitiveDataMarshaler \<Rightarrow> 'o payload Field" where
  "zap_Any key marshaler =
     \<lparr>Key = key, Type = ReflectType, Integer = 0, String = [], Interface = Marshaler marshaler\<rparr>"

text \<open>A field appended as it is: every component is the caller's.\<close>

definition same_field :: "'o gvalue Field \<Rightarrow> 'o payload Field" where
  "same_field field =
     \<lparr>Key = Key field, Type = Type field, Integer = Integer field, String = String field,
      Interface = Value (Interface field)\<rparr>"

text \<open>
  The loop of \<open>EncodeEntry\<close> over \<open>fields\<close>, appending to \<open>filteredFields\<close>.
\<close>

fun filterFields ::
    "SensitiveDataFilter \<Rightarrow> string \<Rightarrow> 'o gvalue Field list \<Rightarrow> 'o payload Field list
      \<Rightarrow> 'o payload Field list" where
  "filterFields flt Mask [] filteredFields = filteredFields"
| "filterFields flt Mask (field # rest) filteredFields =
     filterFields flt Mask rest
       (filteredFields @
         [if IsSensitiveField flt (ToLower (Key field)) then zap_String (Key field) Mask
          else if (Type field = ReflectType \<or> Type field = ObjectMarshalerType)
                  \<and> Interface field \<noteq> VNil
               then zap_Any (Key field) \<lparr>Data = Interface field, Filter = Some flt\<rparr>
               else same_field field])"

text \<open>
  \<open>type SensitiveDataEncoder struct { zapcore.Encoder; Filter *SensitiveDataFilter }\<close>.
  Of the embedded encoder only its \<open>EncodeEntry\<close> is called: a function of the entry
  (\<open>'e\<close>) and the fields, returning a buffer or an error (\<open>'r\<close>).
\<close>

record ('e, 'o, 'r) SensitiveDataEncoder =
  Encoder :: "'e \<Rightarrow> 'o payload Field list \<Rightarrow> 'r"
  Filter :: "SensitiveDataFilter option"

definition EncodeEntry ::
    "('e, 'o, 'r) SensitiveDataEncoder \<Rightarrow> string \<Rightarrow> 'e \<Rightarrow> 'o gvalue Field list \<Rightarrow> 'r" where
  "EncodeEntry e Mask ent flds =
     (case SensitiveDataEncoder.Filter e of
        None \<Rightarrow> Encoder e ent (map same_field flds)
      | Some flt \<Rightarrow>
          if length flds = 0 then Encoder e ent (map same_field flds)
          else Encoder e ent (filterFields flt Mask flds []))"

section \<open>Notions of the specification\<close>

text \<open>
  An ASCII case variant of a name: the same bytes with the case of some of the ASCII
  letters changed. \<open>toggle_byte\<close> changes the case of one ASCII letter. \<open>ascii\<close> holds
  of the names made of ASCII bytes only.
\<close>

definition toggle_byte :: "char \<Rightarrow> char" where
  "toggle_byte c =
     (let n = (of_char c :: nat) in
      if 65 \<le> n \<and> n \<le> 90 then char_of (n + 32)
      else if 97 \<le> n \<and> n \<le> 122 then char_of (n - 32)
      else c)"

definition ascii_case_variant :: "string \<Rightarrow> string \<Rightarrow> bool" where
  "ascii_case_variant s t = list_all2 (\<lambda>a b. b = a \<or> b = toggle_byte a) s t"

definition ascii :: "string \<Rightarrow> bool" where
  "ascii s = list_all (\<lambda>c. (of_char c :: nat) < 128) s"

text \<open>
  Letters outside ASCII have case as well. The long s, U+017F, in UTF-8 the bytes C5 BF,
  is a lower-case letter whose upper-case form is \<open>S\<close>: in Go \<open>unicode.ToUpper(0x17F)\<close> is
  \<open>'S'\<close>, \<open>unicode.ToLower(0x17F)\<close> is \<open>0x17F\<close> itself, and \<open>strings.EqualFold\<close>, Go's
  equality up to case, holds of the long s and \<open>S\<close>. So \<open>strings.ToLower\<close> returns the
  name made of the long s unchanged, as \<open>ToLower\<close> does, and turns \<open>S\<close> into \<open>s\<close>.

  \<open>fold_case\<close> is Unicode's simple case folding on the names made of ASCII characters
  and the long s: \<open>A\<close> to \<open>Z\<close> fold to \<open>a\<close> to \<open>z\<close> and the long s folds to \<open>s\<close>. Two such
  names are case variants of each other when they fold to the same name.
\<close>

definition long_s :: string where
  "long_s = [CHR 0xC5, CHR 0xBF]"

fun fold_case :: "string \<Rightarrow> string" where
  "fold_case (a # b # s) =
     (if a = CHR 0xC5 \<and> b = CHR 0xBF then CHR ''s'' # fold_case s
      else lower_byte a # fold_case (b # s))"
| "fold_case [a] = [lower_byte a]"
| "fold_case [] = []"

definition unicode_case_variant :: "string \<Rightarrow> string \<Rightarrow> bool" where
  "unicode_case_variant s t = (fold_case s = fold_case t)"

text \<open>
  The type switch that both masking loops apply to a value they keep: a map and a
  slice are masked recursively, any other value is kept as it is.
\<close>

definition maskValue :: "SensitiveDataFilter \<Rightarrow> string \<Rightarrow> 'o gvalue \<Rightarrow> 'o gvalue" where
  "maskValue f Mask value =
     (case value of
        VMap v \<Rightarrow> VMap (MaskSensitiveData f Mask v)
      | VSlice v \<Rightarrow> VSlice (maskSliceData f Mask v)
      | _ \<Rightarrow> value)"

text \<open>
  The values that the type switch of \<open>MarshalJSON\<close> sends to its default case: those that
  are neither a \<open>map[string]interface{}\<close> nor a \<open>[]interface{}\<close>.
\<close>

definition other_typed :: "'o gvalue \<Rightarrow> bool" where
  "other_typed v = (case v of VMap _ \<Rightarrow> False | VSlice _ \<Rightarrow> False | _ \<Rightarrow> True)"

text \<open>The keys of a value at every nesting depth, through maps and slices.\<close>

fun keys_of :: "'o gvalue \<Rightarrow> string list" where
  "keys_of (VMap (Some data)) = concat (map (\<lambda>(key, value). key # keys_of value) data)"
| "keys_of (VSlice (Some items)) = concat (map keys_of items)"
| "keys_of _ = []"

text \<open>
  Where a value is nil and where it is empty, at every depth that the masking functions
  reach: a nil map, a map with the shapes of its values per key, a nil slice, a slice
  with the shapes of its elements, and \<open>SScalar\<close> for every other value and for whatever
  stands under a sensitive key, which masking replaces without looking at it.
\<close>

datatype shape =
    SScalar
  | SNilMap
  | SMap "(string \<times> shape) list"
  | SNilSlice
  | SSlice "shape list"

fun nil_shape :: "SensitiveDataFilter \<Rightarrow> 'o gvalue \<Rightarrow> shape" where
  "nil_shape f (VMap None) = SNilMap"
| "nil_shape f (VMap (Some data)) =
     SMap (map (\<lambda>(key, value).
             (key, if IsSensitiveField f key then SScalar else nil_shape f value)) data)"
| "nil_shape f (VSlice None) = SNilSlice"
| "nil_shape f (VSlice (Some items)) = SSlice (map (nil_shape f) items)"
| "nil_shape f _ = SScalar"

text \<open>
  The encoder's test for a complex value: a field built by \<open>zap.Reflect\<close> or
  \<open>zap.Object\<close> whose payload is not the nil interface.
\<close>

definition complex_typed :: "'o gvalue Field \<Rightarrow> bool" where
  "complex_typed field =
     ((Type field = ReflectType \<or> Type field = ObjectMarshalerType) \<and> Interface field \<noteq> VNil)"

text \<open>
  The field sequence that \<open>EncodeEntry\<close> hands to the wrapped encoder: what
  \<open>EncodeEntry\<close> returns when the wrapped encoder returns the fields it is given.
\<close>

definition delegated ::
    "SensitiveDataFilter option \<Rightarrow> string \<Rightarrow> 'o gvalue Field list \<Rightarrow> 'o payload Field list" where
  "delegated flt Mask flds =
     EncodeEntry \<lparr>Encoder = (\<lambda>ent filteredFields. filteredFields), Filter = flt\<rparr> Mask () flds"

section \<open>The JSON library on raw messages\<close>

text \<open>
  An instance of the library parameter, for wrapped values of type \<open>json.RawMessage\<close>:
  \<open>VOther doc\<close> is the raw message that spells the JSON document \<open>doc\<close>. Serialized data
  is taken as the document it spells, which leaves out white space, escapes and the
  order of the members of an object. \<open>JNumber m e\<close> is the number literal of value
  \<open>m * 10 ^ e\<close>.

  \<open>json.Marshal\<close> is \<open>encode\<close>: nil, a nil map and a nil slice are written as \<open>null\<close>, a
  map as an object, a slice as an array, and a raw message as the document it holds.

  \<open>json.Unmarshal\<close> into an \<open>interface{}\<close> is \<open>decode\<close>: \<open>null\<close> gives nil, an array a
  \<open>[]interface{}\<close> that is not nil, an object a \<open>map[string]interface{}\<close> in which the last
  member of a repeated name stays, and a number a \<open>float64\<close> (its rounding is left out).
  The number is read by \<open>strconv.ParseFloat\<close>, which fails on a literal that rounds to
  an infinity, that is on one of absolute value \<open>2 ^ 1024 - 2 ^ 970\<close> or more;
  \<open>json.Unmarshal\<close> then returns an \<open>UnmarshalTypeError\<close>. Into a map variable
  \<open>json.Unmarshal\<close> takes \<open>null\<close> and an object, into a slice variable \<open>null\<close> and an
  array; for a document of another kind it returns an \<open>UnmarshalTypeError\<close>.
\<close>

datatype json =
    JNull
  | JBool bool
  | JNumber int int
  | JString string
  | JArray "json list"
  | JObject "(string \<times> json) list"

definition float64_range :: "int \<Rightarrow> int \<Rightarrow> bool" where
  "float64_range m e =
     (if 0 \<le> e then \<bar>m\<bar> * 10 ^ nat e < 2 ^ 1024 - 2 ^ 970
      else \<bar>m\<bar> < (2 ^ 1024 - 2 ^ 970) * 10 ^ nat (- e))"

fun numbers_in_range :: "json \<Rightarrow> bool" where
  "numbers_in_range (JNumber m e) = float64_range m e"
| "numbers_in_range (JArray elems) = list_all numbers_in_range elems"
| "numbers_in_range (JObject members) = list_all (\<lambda>(name, v). numbers_in_range v) members"
| "numbers_in_range _ = True"

definition last_wins :: "(string \<times> 'v) list \<Rightarrow> (string \<times> 'v) list" where
  "last_wins members = rev (AList.clearjunk (rev members))"

fun decode :: "json \<Rightarrow> json gvalue" where
  "decode JNull = VNil"
| "decode (JBool b) = VBool b"
| "decode (JNumber m e) = VNumber m e"
| "decode (JString s) = VString s"
| "decode (JArray elems) = VSlice (Some (map decode elems))"
| "decode (JObject members) =
     VMap (Some (last_wins (map (\<lambda>(name, v). (name, decode v)) members)))"

fun encode :: "json gvalue \<Rightarrow> json" where
  "encode VNil = JNull"
| "encode (VBool b) = JBool b"
| "encode (VNumber m e) = JNumber m e"
| "encode (VString s) = JString s"
| "encode (VMap None) = JNull"
| "encode (VMap (Some data)) = JObject (map (\<lambda>(key, value). (key, encode value)) data)"
| "encode (VSlice None) = JNull"
| "encode (VSlice (Some items)) = JArray (map encode items)"
| "encode (VOther raw) = raw"

definition encoding_json :: "(json, json) json_lib" where
  "encoding_json =
     \<lparr>Marshal = (\<lambda>v. Inr (encode v)),
      Unmarshal_map = (\<lambda>doc.
        case doc of
          JNull \<Rightarrow> Inr None
        | JObject members \<Rightarrow>
            if numbers_in_range doc
            then Inr (Some (last_wins (map (\<lambda>(name, v). (name, decode v)) members)))
            else Inl (JsonError ''json: cannot unmarshal number into Go value of type float64'')
        | _ \<Rightarrow> Inl (JsonError
                   ''json: cannot unmarshal into Go value of type map[string]interface {}'')),
      Unmarshal_slice = (\<lambda>doc.
        case doc of
          JNull \<Rightarrow> Inr None
        | JArray elems \<Rightarrow>
            if numbers_in_range doc then Inr (Some (map decode elems))
            else Inl (JsonError ''json: cannot unmarshal number into Go value of type float64'')
        | _ \<Rightarrow> Inl (JsonError
                   ''json: cannot unmarshal into Go value of type []interface {}''))\<rparr>"

section \<open>Lower-casing and membership\<close>

lemma lower_byte_idem: "lower_byte (lower_byte c) = lower_byte c"
  by (auto simp: lower_byte_def Let_def)

lemma ToLower_idem: "ToLower (ToLower s) = ToLower s"
  by (simp add: ToLower_def lower_byte_idem)

lemma ToLower_Nil_iff: "ToLower s = [] \<longleftrightarrow> s = []"
  by (simp add: ToLower_def)

text \<open>
  The masking loop and the encoder lower-case a key before they ask the filter, which
  lower-cases again: the answer is that for the key itself.
\<close>

lemma IsSensitiveField_ToLower: "IsSensitiveField f (ToLower k) = IsSensitiveField f k"
  by (simp add: IsSensitiveField_def ToLower_idem ToLower_Nil_iff)

lemma lower_toggle: "lower_byte (toggle_byte c) = lower_byte c"
  by (auto simp: lower_byte_def toggle_byte_def Let_def)

lemma ascii_case_variant_ToLower: "ascii_case_variant s t \<Longrightarrow> ToLower t = ToLower s"
  unfolding ascii_case_variant_def ToLower_def
  by (induction s t rule: list_all2_induct) (auto simp: lower_toggle)

lemma ascii_case_variant_Nil: "ascii_case_variant s t \<Longrightarrow> (t = []) = (s = [])"
  unfolding ascii_case_variant_def by (auto simp: list_all2_Nil list_all2_Nil2)

lemma sensitiveFields_New:
  "sensitiveFields (NewSensitiveDataFilter names) k =
     (if k \<in> ToLower ` set names then Some True else None)"
proof -
  have "fold (\<lambda>field sensitiveMap. sensitiveMap(ToLower field \<mapsto> True)) names m k
        = (if k \<in> ToLower ` set names then Some True else m k)" for m
    by (induction names arbitrary: m) auto
  then show ?thesis by (simp add: NewSensitiveDataFilter_def)
qed

text \<open>Facts that let the simplifier evaluate the filter on concrete names.\<close>

lemmas eval_names = NewSensitiveDataFilter_def IsSensitiveField_def ToLower_def lower_byte_def
  toggle_byte_def char_of_def bit_0 Mask_default_def

text \<open>
  Claim C4, as it is stated: for every sensitive field set and every field name,
  \<open>IsSensitiveField\<close> gives the same answer for the name and for any case variant of it.
  The code compares lower-cased names, and two case variants need not have the same
  lower-cased form. With the long s as the one configured name, \<open>NewSensitiveDataFilter\<close>
  stores the long s (it is its own lower-case form); the probe made of the long s is
  found, whereas its case variant \<open>S\<close> is lower-cased to \<open>s\<close> and is not found.
\<close>

theorem IsSensitiveField_case_insensitive_counterexample:
  "unicode_case_variant long_s ''S''
   \<and> IsSensitiveField (NewSensitiveDataFilter [long_s]) long_s
   \<and> \<not> IsSensitiveField (NewSensitiveDataFilter [long_s]) ''S''"
  by (simp add: unicode_case_variant_def long_s_def eval_names)

text \<open>
  Claim C4, amended to the case of ASCII letters. For every filter, a name and each of
  its ASCII case variants get the same answer from \<open>IsSensitiveField\<close>, because the probe
  is lower-cased before the lookup. For a filter built by \<open>NewSensitiveDataFilter\<close> from
  ASCII names, the answer for an ASCII probe is whether the probe is not empty and
  agrees with a configured name after both are lower-cased, because the configured
  names are stored lower-cased.
\<close>

theorem IsSensitiveField_ascii_case_insensitive:
  assumes "ascii_case_variant s t"
  shows "IsSensitiveField f t = IsSensitiveField f s
       \<and> (ascii s \<and> list_all ascii names \<longrightarrow>
            IsSensitiveField (NewSensitiveDataFilter names) t
              = (s \<noteq> [] \<and> (\<exists>n \<in> set names. ToLower n = ToLower s)))"
proof -
  have mem: "(ToLower s \<in> ToLower ` set names) = (\<exists>n \<in> set names. ToLower n = ToLower s)"
    by (metis (no_types) image_iff)
  have "IsSensitiveField f t = IsSensitiveField f s"
    using assms
    by (simp add: IsSensitiveField_def ascii_case_variant_ToLower ascii_case_variant_Nil)
  moreover have "IsSensitiveField (NewSensitiveDataFilter names) t
          = (s \<noteq> [] \<and> (\<exists>n \<in> set names. ToLower n = ToLower s))"
    using assms
    by (simp add: IsSensitiveField_def ascii_case_variant_ToLower ascii_case_variant_Nil
        sensitiveFields_New mem)
  ultimately show ?thesis by simp
qed

theorem IsSensitiveField_ascii_case_insensitive_witness:
  "ascii_case_variant ''Password'' ''pASSwORD''
   \<and> ascii ''Password'' \<and> list_all ascii [''PassWord'', ''token'']
   \<and> IsSensitiveField (NewSensitiveDataFilter [''PassWord'', ''token'']) ''pASSwORD''
   \<and> IsSensitiveField (NewSensitiveDataFilter [''PassWord'', ''token'']) ''Password''
   \<and> \<not> IsSensitiveField (NewSensitiveDataFilter [''PassWord'', ''token'']) ''pass''"
proof -
  have cv: "ascii_case_variant ''Password'' ''pASSwORD''"
    by (simp add: ascii_case_variant_def eval_names)
  show ?thesis
    using cv IsSensitiveField_ascii_case_insensitive
      [OF cv, of "NewSensitiveDataFilter [''PassWord'', ''token'']" "[''PassWord'', ''token'']"]
    by (simp add: eval_names ascii_def)
qed

section \<open>The masking functions\<close>

lemma MaskSensitiveData_Some:
  "MaskSensitiveData f Mask (Some data) =
     Some (map (\<lambda>(key, value).
             (key, if IsSensitiveField f key then VString Mask else maskValue f Mask value)) data)"
  by (auto simp: maskValue_def IsSensitiveField_ToLower split: gvalue.splits)

lemma maskSliceData_Some:
  "maskSliceData f Mask (Some items) = Some (map (maskValue f Mask) items)"
  by (auto simp: maskValue_def split: gvalue.splits)

lemma mask_keys: "map_option (map fst) (MaskSensitiveData f Mask data) = map_option (map fst) data"
  by (cases data)
    (simp_all add: MaskSensitiveData_Some comp_def case_prod_beta del: MaskSensitiveData.simps(2))

lemma mask_length: "map_option length (maskSliceData f Mask items) = map_option length items"
  by (cases items) simp_all

lemma mask_idem_both:
  fixes data :: "(string \<times> 'o gvalue) list option" and items :: "'o gvalue list option"
  shows "MaskSensitiveData f Mask (MaskSensitiveData f Mask data) = MaskSensitiveData f Mask data"
    and "maskSliceData f Mask (maskSliceData f Mask items) = maskSliceData f Mask items"
proof (induction f Mask data and f Mask items rule: MaskSensitiveData_maskSliceData.induct)
  case (2 f Mask data)
  show ?case
    by (simp add: comp_def) (auto split: gvalue.splits simp: 2)
next
  case (4 f Mask items)
  show ?case
    by (simp add: comp_def) (auto split: gvalue.splits simp: 4)
qed simp_all

lemma mask_clean_both:
  fixes data :: "(string \<times> 'o gvalue) list option" and items :: "'o gvalue list option"
  shows "(\<forall>k \<in> set (keys_of (VMap data)). \<not> IsSensitiveField f k)
           \<Longrightarrow> MaskSensitiveData f Mask data = data"
    and "(\<forall>k \<in> set (keys_of (VSlice items)). \<not> IsSensitiveField f k)
           \<Longrightarrow> maskSliceData f Mask items = items"
proof (induction f Mask data and f Mask items rule: MaskSensitiveData_maskSliceData.induct)
  case (2 f Mask data)
  have "(case x of (key, value) \<Rightarrow>
            if IsSensitiveField f (ToLower key) then (key, VString Mask)
            else (case value of
                    VMap v \<Rightarrow> (key, VMap (MaskSensitiveData f Mask v))
                  | VSlice v \<Rightarrow> (key, VSlice (maskSliceData f Mask v))
                  | _ \<Rightarrow> (key, value))) = x" if "x \<in> set data" for x
  proof -
    obtain k v where x: "x = (k, v)" by (cases x)
    from 2(3) that x have ns: "\<not> IsSensitiveField f k"
      and sub: "\<forall>k' \<in> set (keys_of v). \<not> IsSensitiveField f k'"
      by force+
    show ?thesis
      using ns sub 2(1) [OF that x [symmetric]] 2(2) [OF that x [symmetric]]
      by (auto simp: x IsSensitiveField_ToLower split: gvalue.splits)
  qed
  then show ?case by (simp add: map_idI)
next
  case (4 f Mask items)
  have "(case x of
          VMap v \<Rightarrow> VMap (MaskSensitiveData f Mask v)
        | VSlice v \<Rightarrow> VSlice (maskSliceData f Mask v)
        | _ \<Rightarrow> x) = x" if "x \<in> set items" for x
  proof -
    from 4(3) that have sub: "\<forall>k' \<in> set (keys_of x). \<not> IsSensitiveField f k'"
      by force
    show ?thesis
      using sub 4(1) [OF that] 4(2) [OF that]
      by (auto split: gvalue.splits)
  qed
  then show ?case by (simp add: map_idI)
qed simp_all

text \<open>
  Claim C3. In an object, every entry whose key is sensitive comes out as that key
  with the mask token as a string, whatever value it held (an object included): the
  result has the keys of the input in their places, each of its entries under such a
  key holds the token, and putting any other value under the key in the input
  changes nothing in the result, so the value is never looked into.
\<close>

theorem MaskSensitiveData_sensitive_key:
  fixes data :: "(string \<times> 'o gvalue) list"
  assumes "(k, v) \<in> set data" and "IsSensitiveField f k"
  shows "\<exists>data'. MaskSensitiveData f Mask (Some data) = Some data'
           \<and> map fst data' = map fst data
           \<and> (k, VString Mask) \<in> set data'
           \<and> (\<forall>w. (k, w) \<in> set data' \<longrightarrow> w = VString Mask)
           \<and> (\<forall>i w. i < length data \<and> fst (data ! i) = k
                 \<longrightarrow> MaskSensitiveData f Mask (Some (data[i := (k, w)])) = Some data')"
proof -
  define g :: "string \<times> 'o gvalue \<Rightarrow> string \<times> 'o gvalue" where "g = (\<lambda>(key, value).
      (key, if IsSensitiveField f key then VString Mask else maskValue f Mask value))"
  define d where "d = map g data"
  have eq: "MaskSensitiveData f Mask (Some data') = Some (map g data')" for data'
    unfolding g_def by (rule MaskSensitiveData_Some)
  have g_fst: "fst (g x) = fst x" for x
    by (simp add: g_def case_prod_beta)
  have g_sens: "g (k, w) = (k, VString Mask)" for w
    using assms(2) by (simp add: g_def)
  have keys: "map fst d = map fst data"
    by (simp add: d_def comp_def g_fst)
  have "g (k, v) \<in> set d"
    unfolding d_def set_map using assms(1) by (rule imageI)
  then have mem: "(k, VString Mask) \<in> set d"
    by (simp only: g_sens)
  have only: "w = VString Mask" if "(k, w) \<in> set d" for w
  proof -
    from that obtain x where "x \<in> set data" and "g x = (k, w)"
      unfolding d_def set_map by (auto elim!: imageE)
    moreover from this g_fst [of x] have "x = (k, snd x)"
      by (simp add: prod_eq_iff)
    ultimately show ?thesis
      using g_sens [of "snd x"] by simp
  qed
  have upd: "MaskSensitiveData f Mask (Some (data[i := (k, w)])) = Some d"
    if "i < length data" and "fst (data ! i) = k" for i w
  proof -
    have "data ! i = (k, snd (data ! i))"
      using that(2) by (simp add: prod_eq_iff)
    then have "d ! i = (k, VString Mask)"
      using that(1) g_sens [of "snd (data ! i)"] by (simp add: d_def)
    then have "d[i := (k, VString Mask)] = d"
      by (metis list_update_id)
    then show ?thesis
      by (simp only: eq map_update g_sens d_def)
  qed
  show ?thesis
  proof (rule exI [of _ d], intro conjI allI impI)
    show "MaskSensitiveData f Mask (Some data) = Some d"
      by (simp only: eq d_def)
    show "map fst d = map fst data"
      by (rule keys)
    show "(k, VString Mask) \<in> set d"
      by (rule mem)
    show "w = VString Mask" if "(k, w) \<in> set d" for w
      using that by (rule only)
    show "MaskSensitiveData f Mask (Some (data[i := (k, w)])) = Some d"
      if "i < length data \<and> fst (data ! i) = k" for i w
      using that upd by blast
  qed
qed

theorem MaskSensitiveData_sensitive_key_witness:
  "(''secret'', VMap (Some [(''a'', VNumber 1 0)]))
      \<in> set [(''name'', VString ''John''),
              (''secret'', VMap (Some [(''a'', VNumber 1 0 :: unit gvalue)]))]
   \<and> IsSensitiveField (NewSensitiveDataFilter [''Secret'']) ''secret''
   \<and> MaskSensitiveData (NewSensitiveDataFilter [''Secret'']) ''***''
        (Some [(''name'', VString ''John''),
               (''secret'', VMap (Some [(''a'', VNumber 1 0 :: unit gvalue)]))])
      = Some [(''name'', VString ''John''), (''secret'', VString ''***'')]"
proof -
  have h1: "(''secret'', VMap (Some [(''a'', VNumber 1 0)]))
      \<in> set [(''name'', VString ''John''),
              (''secret'', VMap (Some [(''a'', VNumber 1 0 :: unit gvalue)]))]"
    by simp
  have h2: "IsSensitiveField (NewSensitiveDataFilter [''Secret'']) ''secret''"
    by (simp add: eval_names)
  show ?thesis
    using h1 h2 MaskSensitiveData_sensitive_key [OF h1 h2, of "''***''"]
    by (simp add: eval_names)
qed

text \<open>
  Claim C5. Masking is idempotent: with the same filter and the same mask token,
  masking the result of \<open>MaskSensitiveData\<close> again returns that result.
\<close>

theorem MaskSensitiveData_idempotent:
  "MaskSensitiveData f Mask (MaskSensitiveData f Mask data) = MaskSensitiveData f Mask data"
  by (rule mask_idem_both(1))

theorem MaskSensitiveData_idempotent_witness:
  "MaskSensitiveData (NewSensitiveDataFilter [''password'', ''token'']) ''***''
     (Some [(''name'', VString ''John''),
            (''credentials'', VMap (Some [(''password'', VString ''secret123''),
                                          (''token'', VString ''abc123'')])),
            (''address'', VString ''123 Main St'' :: unit gvalue)])
   = Some [(''name'', VString ''John''),
           (''credentials'', VMap (Some [(''password'', VString ''***''),
                                         (''token'', VString ''***'')])),
           (''address'', VString ''123 Main St'')]
   \<and> MaskSensitiveData (NewSensitiveDataFilter [''password'', ''token'']) ''***''
     (Some [(''name'', VString ''John''),
            (''credentials'', VMap (Some [(''password'', VString ''***''),
                                          (''token'', VString ''***'')])),
            (''address'', VString ''123 Main St'' :: unit gvalue)])
   = Some [(''name'', VString ''John''),
           (''credentials'', VMap (Some [(''password'', VString ''***''),
                                         (''token'', VString ''***'')])),
           (''address'', VString ''123 Main St'')]"
proof -
  let ?f = "NewSensitiveDataFilter [''password'', ''token'']"
  let ?d = "Some [(''name'', VString ''John''),
            (''credentials'', VMap (Some [(''password'', VString ''secret123''),
                                          (''token'', VString ''abc123'')])),
            (''address'', VString ''123 Main St'' :: unit gvalue)]"
  have e: "MaskSensitiveData ?f ''***'' ?d
      = Some [(''name'', VString ''John''),
           (''credentials'', VMap (Some [(''password'', VString ''***''),
                                         (''token'', VString ''***'')])),
           (''address'', VString ''123 Main St'')]"
    by (simp add: eval_names)
  show ?thesis
    using e MaskSensitiveData_idempotent [of ?f "''***''" ?d]
    by simp
qed

text \<open>
  Claim C6. An object in which no key at any nesting depth is sensitive is returned
  as it is: the same entries with the same values in the same order, nil for nil.
\<close>

theorem MaskSensitiveData_no_sensitive_key:
  assumes "\<forall>k \<in> set (keys_of (VMap data)). \<not> IsSensitiveField f k"
  shows "MaskSensitiveData f Mask data = data"
  using assms by (rule mask_clean_both(1))

theorem MaskSensitiveData_no_sensitive_key_witness:
  "(\<forall>k \<in> set (keys_of (VMap (Some [(''name'', VString ''John''),
          (''tags'', VSlice (Some [VString ''password'', VMap None,
                                   VMap (Some [(''id'', VNumber 7 0 :: unit gvalue)])]))]))).
      \<not> IsSensitiveField (NewSensitiveDataFilter [''password'']) k) = True
   \<and> MaskSensitiveData (NewSensitiveDataFilter [''password'']) ''***''
        (Some [(''name'', VString ''John''),
          (''tags'', VSlice (Some [VString ''password'', VMap None,
                                   VMap (Some [(''id'', VNumber 7 0 :: unit gvalue)])]))])
      = Some [(''name'', VString ''John''),
          (''tags'', VSlice (Some [VString ''password'', VMap None,
                                   VMap (Some [(''id'', VNumber 7 0)])]))]"
proof -
  let ?d = "Some [(''name'', VString ''John''),
          (''tags'', VSlice (Some [VString ''password'', VMap None,
                                   VMap (Some [(''id'', VNumber 7 0 :: unit gvalue)])]))]"
  have h: "\<forall>k \<in> set (keys_of (VMap ?d)).
      \<not> IsSensitiveField (NewSensitiveDataFilter [''password'']) k"
    by (simp add: eval_names)
  show ?thesis
    using h MaskSensitiveData_no_sensitive_key [OF h, of "''***''"]
    by simp
qed

text \<open>
  Claim C8. For an array, \<open>maskSliceData\<close> returns an array of the same length whose
  element at each index is the input's element masked by the type switch: a map by
  \<open>MaskSensitiveData\<close>, a slice by \<open>maskSliceData\<close>, and any other element unchanged,
  also a string that spells a sensitive name, since elements have no keys. With the
  sensitive field \<open>password\<close>, the array of \<open>{"password":"p1"}\<close> and
  \<open>{"password":"p2"}\<close> becomes the array of \<open>{"password":"***"}\<close> twice.
\<close>

theorem maskSliceData_elementwise:
  "maskSliceData f Mask (Some items) = Some (map (maskValue f Mask) items)
   \<and> map_option length (maskSliceData f Mask (Some items)) = Some (length items)
   \<and> maskValue f Mask (VMap v) = VMap (MaskSensitiveData f Mask v)
   \<and> maskValue f Mask (VSlice w) = VSlice (maskSliceData f Mask w)
   \<and> maskValue f Mask (VString s) = VString s
   \<and> maskValue f Mask (VNumber m n) = VNumber m n
   \<and> maskValue f Mask (VBool b) = VBool b
   \<and> maskValue f Mask VNil = VNil
   \<and> maskValue f Mask (VOther x) = VOther x
   \<and> maskSliceData (NewSensitiveDataFilter [''password'']) ''***''
        (Some [VMap (Some [(''password'', VString ''p1'')]),
               VMap (Some [(''password'', VString ''p2'')])])
      = Some [VMap (Some [(''password'', VString ''***'')]),
              VMap (Some [(''password'', VString ''***'')])]"
proof -
  have ex: "maskSliceData (NewSensitiveDataFilter [''password'']) ''***''
        (Some [VMap (Some [(''password'', VString ''p1'')]),
               VMap (Some [(''password'', VString ''p2'')])])
      = Some [VMap (Some [(''password'', VString ''***'')]),
              VMap (Some [(''password'', VString ''***'')])]"
    by (simp add: eval_names)
  have "maskSliceData f Mask (Some items) = Some (map (maskValue f Mask) items)"
    by (rule maskSliceData_Some)
  then show ?thesis
    using ex by (simp add: maskValue_def del: maskSliceData.simps MaskSensitiveData.simps)
qed

theorem maskSliceData_elementwise_witness:
  "maskSliceData (NewSensitiveDataFilter [''password'']) ''***''
     (Some [VString ''password'', VSlice (Some [VMap (Some [(''Password'', VBool True)])]),
            VMap None, VOther ()])
   = Some [VString ''password'', VSlice (Some [VMap (Some [(''Password'', VString ''***'')])]),
           VMap None, VOther ()]"
  using maskSliceData_elementwise
    [where f = "NewSensitiveDataFilter [''password'']" and Mask = "''***''"
       and items = "[VString ''password'',
                     VSlice (Some [VMap (Some [(''Password'', VBool True)])]),
                     VMap None, VOther ()]"
       and v = None and w = None and s = "[]" and m = 0 and n = 0 and b = True and x = "()"]
  by (simp add: eval_names)

lemma mask_shape_both:
  fixes data :: "(string \<times> 'o gvalue) list option" and items :: "'o gvalue list option"
  shows "nil_shape f (VMap (MaskSensitiveData f Mask data)) = nil_shape f (VMap data)"
    and "nil_shape f (VSlice (maskSliceData f Mask items)) = nil_shape f (VSlice items)"
proof (induction f Mask data and f Mask items rule: MaskSensitiveData_maskSliceData.induct)
  case (2 f Mask data)
  show ?case
    by (simp add: comp_def) (auto split: gvalue.splits simp: 2 IsSensitiveField_ToLower)
next
  case (4 f Mask items)
  show ?case
    by (simp add: comp_def) (auto split: gvalue.splits simp: 4)
qed simp_all

lemma MaskSensitiveData_None_iff: "(MaskSensitiveData f Mask data = None) = (data = None)"
  by (cases data) simp_all

lemma MaskSensitiveData_Nil_iff: "(MaskSensitiveData f Mask data = Some []) = (data = Some [])"
  by (cases data) simp_all

lemma maskSliceData_None_iff: "(maskSliceData f Mask items = None) = (items = None)"
  by (cases items) simp_all

lemma maskSliceData_Nil_iff: "(maskSliceData f Mask items = Some []) = (items = Some [])"
  by (cases items) simp_all

text \<open>
  Claim C9. Nil and empty are kept apart. \<open>MaskSensitiveData\<close> of the nil map is the
  nil map and \<open>maskSliceData\<close> of the nil slice is the nil slice; the empty map and the
  empty slice give the empty map and the empty slice; a result is nil only for a nil
  input and empty only for an empty one. The same holds through the recursion: the
  masked map and the masked slice have the shape of the input, so every nested map
  and slice that masking reaches is nil in the result exactly when it is nil in the
  input, and empty exactly when it is empty.
\<close>

theorem nil_and_empty_preserved:
  "MaskSensitiveData f Mask None = None
   \<and> maskSliceData f Mask None = None
   \<and> MaskSensitiveData f Mask (Some []) = Some []
   \<and> maskSliceData f Mask (Some []) = Some []
   \<and> (MaskSensitiveData f Mask data = None) = (data = None)
   \<and> (maskSliceData f Mask items = None) = (items = None)
   \<and> (MaskSensitiveData f Mask data = Some []) = (data = Some [])
   \<and> (maskSliceData f Mask items = Some []) = (items = Some [])
   \<and> nil_shape f (VMap (MaskSensitiveData f Mask data)) = nil_shape f (VMap data)
   \<and> nil_shape f (VSlice (maskSliceData f Mask items)) = nil_shape f (VSlice items)"
proof (intro conjI)
  show "MaskSensitiveData f Mask None = None" by simp
  show "maskSliceData f Mask None = None" by simp
  show "MaskSensitiveData f Mask (Some []) = Some []" by simp
  show "maskSliceData f Mask (Some []) = Some []" by simp
  show "(MaskSensitiveData f Mask data = None) = (data = None)"
    by (rule MaskSensitiveData_None_iff)
  show "(maskSliceData f Mask items = None) = (items = None)"
    by (rule maskSliceData_None_iff)
  show "(MaskSensitiveData f Mask data = Some []) = (data = Some [])"
    by (rule MaskSensitiveData_Nil_iff)
  show "(maskSliceData f Mask items = Some []) = (items = Some [])"
    by (rule maskSliceData_Nil_iff)
  show "nil_shape f (VMap (MaskSensitiveData f Mask data)) = nil_shape f (VMap data)"
    by (rule mask_shape_both(1))
  show "nil_shape f (VSlice (maskSliceData f Mask items)) = nil_shape f (VSlice items)"
    by (rule mask_shape_both(2))
qed

theorem nil_and_empty_preserved_witness:
  "MaskSensitiveData (NewSensitiveDataFilter [''password'']) ''***''
     (Some [(''a'', VMap None), (''b'', VMap (Some [])),
            (''c'', VSlice (Some [VSlice None, VSlice (Some []), VMap None,
                                  VMap (Some [(''d'', VSlice None :: unit gvalue)])]))])
   = Some [(''a'', VMap None), (''b'', VMap (Some [])),
           (''c'', VSlice (Some [VSlice None, VSlice (Some []), VMap None,
                                 VMap (Some [(''d'', VSlice None)])]))]
   \<and> nil_shape (NewSensitiveDataFilter [''password''])
        (VMap (Some [(''a'', VMap None), (''b'', VMap (Some [])),
            (''c'', VSlice (Some [VSlice None, VSlice (Some []), VMap None,
                                  VMap (Some [(''d'', VSlice None :: unit gvalue)])]))]))
      = SMap [(''a'', SNilMap), (''b'', SMap []),
              (''c'', SSlice [SNilSlice, SSlice [], SNilMap, SMap [(''d'', SNilSlice)]])]"
  using nil_and_empty_preserved
    [where f = "NewSensitiveDataFilter [''password'']" and Mask = "''***''"
       and items = "None :: unit gvalue list option"
       and data = "Some [(''a'', VMap None), (''b'', VMap (Some [])),
            (''c'', VSlice (Some [VSlice None, VSlice (Some []), VMap None,
                                  VMap (Some [(''d'', VSlice None :: unit gvalue)])]))]"]
  by (simp add: eval_names)

section \<open>The encoder's field sequence\<close>

lemma filterFields_map:
  "filterFields flt Mask flds acc =
     acc @ map (\<lambda>field.
        if IsSensitiveField flt (Key field) then zap_String (Key field) Mask
        else if complex_typed field
             then zap_Any (Key field) \<lparr>Data = Interface field, Filter = Some flt\<rparr>
             else same_field field) flds"
  by (induction flds arbitrary: acc) (simp_all add: IsSensitiveField_ToLower complex_typed_def)

lemma EncodeEntry_delegated:
  "EncodeEntry e Mask ent flds
     = Encoder e ent (delegated (SensitiveDataEncoder.Filter e) Mask flds)"
  by (simp add: EncodeEntry_def delegated_def split: option.splits)

lemma delegated_None: "delegated None Mask flds = map same_field flds"
  by (simp add: EncodeEntry_def delegated_def)

lemma delegated_Some:
  "delegated (Some flt) Mask flds =
     map (\<lambda>field.
        if IsSensitiveField flt (Key field) then zap_String (Key field) Mask
        else if complex_typed field
             then zap_Any (Key field) \<lparr>Data = Interface field, Filter = Some flt\<rparr>
             else same_field field) flds"
  by (simp add: EncodeEntry_def delegated_def filterFields_map)

lemma delegated_Key: "map Key (delegated fo Mask flds) = map Key flds"
  by (cases fo)
    (simp_all add: delegated_None delegated_Some comp_def zap_String_def zap_Any_def
      same_field_def)

lemmas eval_fields = delegated_def EncodeEntry_def complex_typed_def zap_String_def zap_Any_def
  same_field_def

text \<open>
  Claim C7. Masking and encoding substitute values and nothing else. The masked
  object has the keys of the input, in the places of the input, and is nil exactly
  when the input is; the masked array has the length of the input and its element
  at each index is the masked form of the input's element at that index; and
  \<open>EncodeEntry\<close> calls the wrapped encoder with a field sequence that has the names
  of its input in the same order, hence the same length.
\<close>

theorem masking_preserves_structure:
  "map_option (map fst) (MaskSensitiveData f Mask data) = map_option (map fst) data
   \<and> map_option length (maskSliceData f Mask items) = map_option length items
   \<and> maskSliceData f Mask (Some xs) = Some (map (maskValue f Mask) xs)
   \<and> EncodeEntry e Mask ent flds
        = Encoder e ent (delegated (SensitiveDataEncoder.Filter e) Mask flds)
   \<and> map Key (delegated fo Mask flds) = map Key flds
   \<and> length (delegated fo Mask flds) = length flds"
proof -
  have "length (map Key (delegated fo Mask flds)) = length (map Key flds)"
    by (simp only: delegated_Key)
  then have "length (delegated fo Mask flds) = length flds"
    by simp
  then show ?thesis
    by (simp only: mask_keys mask_length maskSliceData_Some EncodeEntry_delegated
        delegated_Key simp_thms)
qed

theorem masking_preserves_structure_witness:
  "map_option (map fst)
      (MaskSensitiveData (NewSensitiveDataFilter [''token'']) ''***''
        (Some [(''Token'', VString ''abc''), (''n'', VNumber 1 0 :: unit gvalue)]))
     = Some [''Token'', ''n'']
   \<and> map Key (delegated (Some (NewSensitiveDataFilter [''token''])) ''***''
        [\<lparr>Key = ''Token'', Type = StringType, Integer = 0, String = ''abc'',
           Interface = (VNil :: unit gvalue)\<rparr>,
         \<lparr>Key = ''user'', Type = ReflectType, Integer = 0, String = [],
           Interface = VMap (Some [(''token'', VString ''abc'')])\<rparr>,
         \<lparr>Key = ''n'', Type = Int64Type, Integer = 1, String = [], Interface = VNil\<rparr>])
     = [''Token'', ''user'', ''n'']"
  using masking_preserves_structure
    [where f = "NewSensitiveDataFilter [''token'']" and Mask = "''***''"
       and data = "Some [(''Token'', VString ''abc''), (''n'', VNumber 1 0 :: unit gvalue)]"
       and fo = "Some (NewSensitiveDataFilter [''token''])"
       and items = None and xs = "[]" and ent = "()"
       and e = "\<lparr>Encoder = (\<lambda>ent filteredFields. filteredFields), Filter = None\<rparr>"
       and flds = "[\<lparr>Key = ''Token'', Type = StringType, Integer = 0, String = ''abc'',
           Interface = (VNil :: unit gvalue)\<rparr>,
         \<lparr>Key = ''user'', Type = ReflectType, Integer = 0, String = [],
           Interface = VMap (Some [(''token'', VString ''abc'')])\<rparr>,
         \<lparr>Key = ''n'', Type = Int64Type, Integer = 1, String = [], Interface = VNil\<rparr>]"]
  by (simp add: eval_names eval_fields)




text \<open>
  Claim C10. A field of type \<open>ReflectType\<close> or \<open>ObjectMarshalerType\<close> whose \<open>Interface\<close>
  is the nil interface value and whose name is not sensitive is handed to the wrapped
  encoder at its place with every component as the caller gave it: no wrapper is
  attached, its \<open>Interface\<close> is still nil.
\<close>

theorem EncodeEntry_nil_complex_field:
  assumes "i < length flds"
    and "Type (flds ! i) = ReflectType \<or> Type (flds ! i) = ObjectMarshalerType"
    and "Interface (flds ! i) = VNil"
    and "\<not> IsSensitiveField flt (Key (flds ! i))"
  shows "EncodeEntry e Mask ent flds
           = Encoder e ent (delegated (SensitiveDataEncoder.Filter e) Mask flds)
       \<and> delegated (Some flt) Mask flds ! i = same_field (flds ! i)
       \<and> delegated None Mask flds ! i = same_field (flds ! i)
       \<and> Interface (delegated (Some flt) Mask flds ! i) = Value VNil"
  using assms
  by (simp add: EncodeEntry_delegated delegated_Some delegated_None complex_typed_def
      same_field_def)

theorem EncodeEntry_nil_complex_field_witness:
  "\<not> IsSensitiveField (NewSensitiveDataFilter [''password'']) ''user''
   \<and> delegated (Some (NewSensitiveDataFilter [''password''])) ''***''
     [\<lparr>Key = ''user'', Type = ObjectMarshalerType, Integer = 0, String = [],
        Interface = (VNil :: unit gvalue)\<rparr>,
      \<lparr>Key = ''Password'', Type = ReflectType, Integer = 0, String = [], Interface = VNil\<rparr>]
   = [\<lparr>Key = ''user'', Type = ObjectMarshalerType, Integer = 0, String = [],
        Interface = Value VNil\<rparr>,
      \<lparr>Key = ''Password'', Type = StringType, Integer = 0, String = ''***'',
        Interface = Value VNil\<rparr>]"
  using EncodeEntry_nil_complex_field
    [where i = 0 and flt = "NewSensitiveDataFilter [''password'']" and Mask = "''***''"
       and ent = "()"
       and e = "\<lparr>Encoder = (\<lambda>ent filteredFields. filteredFields), Filter = None\<rparr>"
       and flds = "[\<lparr>Key = ''user'', Type = ObjectMarshalerType, Integer = 0, String = [],
                      Interface = (VNil :: unit gvalue)\<rparr>,
                    \<lparr>Key = ''Password'', Type = ReflectType, Integer = 0, String = [],
                      Interface = VNil\<rparr>]"]
  by (simp add: eval_fields eval_names)

section \<open>The wrapper's serialization\<close>

text \<open>Facts that let the simplifier evaluate \<open>MarshalJSON\<close> with the library instance.\<close>

lemmas eval_json = encoding_json_def MarshalJSON_def float64_range_def last_wins_def
  AList.delete_eq

text \<open>
  Claim C2. The claim asks that a failed canonicalization is returned as a failure and
  that the bytes of the unmasked value are never returned as a success. The code does
  otherwise when the wrapped value is serialized and the result can be read back
  neither into a map nor into a slice: for every JSON library, \<open>MarshalJSON\<close> then
  returns the serialized, unmasked value and no error. The comment at that return says
  that it is meant for data that is neither an object nor an array; it is reached as
  well by an object that \<open>json.Unmarshal\<close> refuses, such as the raw message
  \<open>{"password":"p","n":1e400}\<close>, whose number is out of the range of \<open>float64\<close>: the
  password is returned as it is. With \<open>1e300\<close> in its place the password is masked.
\<close>

theorem MarshalJSON_reparse_failure:
  assumes "SensitiveDataMarshaler.Filter m = Some flt"
    and "other_typed (Data m)"
    and "Marshal J (Data m) = Inr jsonData"
    and "Unmarshal_map J jsonData = Inl err"
    and "Unmarshal_slice J jsonData = Inl err'"
  shows "MarshalJSON J Mask m = Inr jsonData"
  using assms by (auto simp: MarshalJSON_def other_typed_def split: gvalue.splits)

theorem MarshalJSON_reparse_failure_witness:
  "Marshal encoding_json
     (VOther (JObject [(''password'', JString ''p''), (''n'', JNumber 1 400)]))
   = Inr (JObject [(''password'', JString ''p''), (''n'', JNumber 1 400)])
   \<and> Unmarshal_map encoding_json (JObject [(''password'', JString ''p''), (''n'', JNumber 1 400)])
     = Inl (JsonError ''json: cannot unmarshal number into Go value of type float64'')
   \<and> Unmarshal_slice encoding_json
       (JObject [(''password'', JString ''p''), (''n'', JNumber 1 400)])
     = Inl (JsonError ''json: cannot unmarshal into Go value of type []interface {}'')
   \<and> MarshalJSON encoding_json ''***''
     \<lparr>Data = VOther (JObject [(''password'', JString ''p''), (''n'', JNumber 1 400)]),
      Filter = Some (NewSensitiveDataFilter [''password''])\<rparr>
   = Inr (JObject [(''password'', JString ''p''), (''n'', JNumber 1 400)])
   \<and> MarshalJSON encoding_json ''***''
     \<lparr>Data = VOther (JObject [(''password'', JString ''p''), (''n'', JNumber 1 300)]),
      Filter = Some (NewSensitiveDataFilter [''password''])\<rparr>
   = Inr (JObject [(''password'', JString ''***''), (''n'', JNumber 1 300)])"
  using MarshalJSON_reparse_failure
    [where J = encoding_json and Mask = "''***''"
       and flt = "NewSensitiveDataFilter [''password'']"
       and m = "\<lparr>Data = VOther (JObject [(''password'', JString ''p''), (''n'', JNumber 1 400)]),
                  Filter = Some (NewSensitiveDataFilter [''password''])\<rparr>"
       and jsonData = "JObject [(''password'', JString ''p''), (''n'', JNumber 1 400)]"
       and err = "JsonError ''json: cannot unmarshal number into Go value of type float64''"
       and err' = "JsonError ''json: cannot unmarshal into Go value of type []interface {}''"]
  by (simp add: eval_json eval_names other_typed_def)

end
